theory Spec2Isabelle
  imports Complex_Main
begin

section \<open>The chat input line (client/gui-gtk-2.0/chatline.c)\<close>

subsection \<open>The history list and the entry widget\<close>

text \<open>
  \<^verbatim>\<open>history_list\<close> is a genlist whose elements carry \<^verbatim>\<open>char *\<close> data pointers
  obtained from \<^verbatim>\<open>mystrdup\<close>. A pointer is an address; \<^verbatim>\<open>NULL\<close> is \<open>None\<close> of
  \<open>ptr option\<close>. The heap maps the addresses of the live allocations to the C strings
  stored there.
\<close>

type_synonym ptr = nat

record chat_state =
  history_list :: "ptr list"
  history_pos :: int
  heap :: "ptr \<rightharpoonup> string"
  entry_text :: string
  chat_sent :: "string list"

text \<open>
  Modelled from the spec: the genlist operations of utility/genlist.c, which is not
  among the source files. The spec says of this handler that it caps the history
  length; the operations are written as \<^verbatim>\<open>inputline_return\<close> uses them and as the
  genlist interface documents them: \<^verbatim>\<open>genlist_get\<close> returns the data pointer at an
  index, where \<open>-1\<close> means the last element and an index out of range (also any index
  into an empty list) gives \<^verbatim>\<open>NULL\<close>; \<^verbatim>\<open>genlist_unlink\<close> removes the first element
  carrying the given data pointer and does nothing when there is none;
  \<^verbatim>\<open>genlist_prepend\<close> inserts at the front.
\<close>

definition genlist_size :: "ptr list \<Rightarrow> int" where
  "genlist_size l = int (length l)"

definition genlist_get :: "ptr list \<Rightarrow> int \<Rightarrow> ptr option" where
  "genlist_get l idx =
     (if l = [] then None
      else if idx = -1 then Some (last l)
      else if 0 \<le> idx \<and> idx < int (length l) then Some (l ! nat idx)
      else None)"

fun unlink_first :: "ptr \<Rightarrow> ptr list \<Rightarrow> ptr list" where
  "unlink_first d [] = []"
| "unlink_first d (x # xs) = (if x = d then xs else x # unlink_first d xs)"

definition genlist_unlink :: "ptr list \<Rightarrow> ptr option \<Rightarrow> ptr list" where
  "genlist_unlink l punlink = (case punlink of None \<Rightarrow> l | Some d \<Rightarrow> unlink_first d l)"

definition genlist_prepend :: "ptr list \<Rightarrow> ptr \<Rightarrow> ptr list" where
  "genlist_prepend l d = d # l"

text \<open>\<^verbatim>\<open>free(NULL)\<close> does nothing; \<^verbatim>\<open>free(p)\<close> ends the allocation at \<open>p\<close>.\<close>

definition free_ptr :: "ptr option \<Rightarrow> (ptr \<rightharpoonup> string) \<Rightarrow> (ptr \<rightharpoonup> string)" where
  "free_ptr data h = (case data of None \<Rightarrow> h | Some d \<Rightarrow> h(d := None))"

text \<open>
  Modelled from the spec: \<^verbatim>\<open>mystrdup\<close> of utility/support.c, which is not among the
  source files. \<^verbatim>\<open>mystrdup(s)\<close> copies \<open>s\<close> into a new allocation; the address \<open>p\<close>
  is the allocator's choice, so it is an argument of the model.
\<close>

definition mystrdup :: "ptr \<Rightarrow> string \<Rightarrow> (ptr \<rightharpoonup> string) \<Rightarrow> (ptr \<rightharpoonup> string)" where
  "mystrdup p s h = h(p \<mapsto> s)"

text \<open>
  Modelled from the spec: \<^verbatim>\<open>send_chat\<close>, which is not among the source files. It
  hands the message to the network layer; the model records the messages in the order
  they are sent.
\<close>

definition send_chat :: "string \<Rightarrow> chat_state \<Rightarrow> chat_state" where
  "send_chat msg s = s\<lparr>chat_sent := chat_sent s @ [msg]\<rparr>"

text \<open>
  \<^verbatim>\<open>inputline_return\<close>, lines 45 to 67. \<open>max_history\<close> is the macro
  \<^verbatim>\<open>MAX_CHATLINE_HISTORY\<close> of chatline.h (not among the source files), \<open>p\<close> the address
  \<^verbatim>\<open>mystrdup\<close> returns. \<^verbatim>\<open>*theinput\<close> is true exactly when the text is not empty.
\<close>

definition inputline_return :: "int \<Rightarrow> ptr \<Rightarrow> chat_state \<Rightarrow> chat_state" where
  "inputline_return max_history p s =
     (let theinput = entry_text s;
          s1 = (if theinput \<noteq> [] then
                  let s2 = send_chat theinput s;
                      s3 = (if genlist_size (history_list s2) \<ge> max_history then
                              let data = genlist_get (history_list s2) (-1)
                              in s2\<lparr>history_list := genlist_unlink (history_list s2) data,
                                    heap := free_ptr data (heap s2)\<rparr>
                            else s2);
                      s4 = s3\<lparr>history_list := genlist_prepend (history_list s3) p,
                               heap := mystrdup p theinput (heap s3)\<rparr>
                  in s4\<lparr>history_pos := -1\<rparr>
                else s)
      in s1\<lparr>entry_text := []\<rparr>)"

text \<open>The pointers of the history list are pairwise distinct live allocations.\<close>

definition history_ok :: "chat_state \<Rightarrow> bool" where
  "history_ok s = (distinct (history_list s) \<and> list_all (\<lambda>d. heap s d \<noteq> None) (history_list s))"

section \<open>The chat output window (client/gui-gtk-2.0/chatline.c)\<close>

subsection \<open>Values of type gdouble\<close>

text \<open>
  A \<^verbatim>\<open>gdouble\<close> is an IEEE 754 binary64 value: a finite number, an infinity or a NaN
  (the sign of a zero plays no part in a subtraction's value or in a comparison).
  The exact difference of two finite values is rounded into the format by \<open>rnd\<close>, which
  may also overflow to an infinity; the rounding function is an argument of the model.
\<close>

datatype gdouble = Finite real | PlusInf | MinusInf | NaN

fun dsub :: "(real \<Rightarrow> gdouble) \<Rightarrow> gdouble \<Rightarrow> gdouble \<Rightarrow> gdouble" where
  "dsub rnd NaN y = NaN"
| "dsub rnd x NaN = NaN"
| "dsub rnd (Finite a) (Finite b) = rnd (a - b)"
| "dsub rnd (Finite a) PlusInf = MinusInf"
| "dsub rnd (Finite a) MinusInf = PlusInf"
| "dsub rnd PlusInf PlusInf = NaN"
| "dsub rnd PlusInf y = PlusInf"
| "dsub rnd MinusInf MinusInf = NaN"
| "dsub rnd MinusInf y = MinusInf"

fun dless :: "gdouble \<Rightarrow> gdouble \<Rightarrow> bool" where
  "dless NaN y = False"
| "dless x NaN = False"
| "dless (Finite a) (Finite b) = (a < b)"
| "dless (Finite a) PlusInf = True"
| "dless (Finite a) MinusInf = False"
| "dless PlusInf y = False"
| "dless MinusInf MinusInf = False"
| "dless MinusInf y = True"

subsection \<open>Text buffers, widgets and the calls into the toolkit\<close>

text \<open>
  A text buffer holds its characters and its marks. An iterator is an offset into the
  text. Every mark this file creates has left gravity (the \<^verbatim>\<open>TRUE\<close> argument of
  \<^verbatim>\<open>gtk_text_buffer_create_mark\<close>): text inserted at the mark goes to its right.
\<close>

type_synonym text_iter = nat
type_synonym text_mark = nat

record text_buffer =
  buf_text :: string
  buf_marks :: "(text_mark \<times> nat) list"

definition gtk_text_buffer_get_end_iter :: "text_buffer \<Rightarrow> text_iter" where
  "gtk_text_buffer_get_end_iter buf = length (buf_text buf)"

text \<open>
  \<^verbatim>\<open>gtk_text_buffer_insert(buf, &iter, text, -1)\<close> inserts the whole string at the
  iterator and leaves the iterator at the end of the inserted text.
\<close>

definition gtk_text_buffer_insert ::
  "text_buffer \<Rightarrow> text_iter \<Rightarrow> string \<Rightarrow> text_buffer \<times> text_iter" where
  "gtk_text_buffer_insert buf iter txt =
     (buf\<lparr>buf_text := take iter (buf_text buf) @ txt @ drop iter (buf_text buf),
          buf_marks := map (\<lambda>(m, off). (m, if iter < off then off + length txt else off))
                         (buf_marks buf)\<rparr>,
      iter + length txt)"

definition gtk_text_buffer_create_mark ::
  "text_buffer \<Rightarrow> text_iter \<Rightarrow> text_buffer \<times> text_mark" where
  "gtk_text_buffer_create_mark buf iter =
     (let mark = Suc (fold max (map fst (buf_marks buf)) 0)
      in (buf\<lparr>buf_marks := buf_marks buf @ [(mark, iter)]\<rparr>, mark))"

definition gtk_text_buffer_delete_mark :: "text_buffer \<Rightarrow> text_mark \<Rightarrow> text_buffer" where
  "gtk_text_buffer_delete_mark buf mark =
     buf\<lparr>buf_marks := filter (\<lambda>(m, off). m \<noteq> mark) (buf_marks buf)\<rparr>"

text \<open>
  A widget pointer is an identifier, \<^verbatim>\<open>NULL\<close> is \<open>None\<close>. \<open>widget_parent\<close> is what
  \<^verbatim>\<open>gtk_widget_get_parent\<close> returns; \<open>scrolled_window_vadj w\<close> is the vertical adjustment
  of \<open>w\<close> when \<open>w\<close> is a \<^verbatim>\<open>GtkScrolledWindow\<close> and \<open>None\<close> when
  \<^verbatim>\<open>GTK_IS_SCROLLED_WINDOW(w)\<close> is false.
\<close>

type_synonym wid = nat

record adjustment =
  adj_value :: gdouble
  adj_upper :: gdouble
  adj_page_size :: gdouble

text \<open>
  The calls that act on the screen are recorded in the order they are made. The constant
  arguments of the two scroll calls (\<^verbatim>\<open>0.0, TRUE, 1.0, 0.0\<close>) are left out.
\<close>

datatype ui_call =
  Scroll_To_Mark wid text_mark
| Scroll_To_Iter wid text_iter
| Append_Network_Statusbar string bool

record gui_state =
  message_buffer :: "text_buffer option"
  main_message_area :: "wid option"
  start_message_area :: "wid option"
  show_chat_message_time :: bool
  widget_parent :: "wid \<Rightarrow> wid option"
  scrolled_window_vadj :: "wid \<Rightarrow> adjustment option"
  ui_calls :: "ui_call list"
  g_criticals :: "string list"

definition gtk_text_view_scroll_to_mark :: "wid \<Rightarrow> text_mark \<Rightarrow> gui_state \<Rightarrow> gui_state" where
  "gtk_text_view_scroll_to_mark textview mark st =
     st\<lparr>ui_calls := ui_calls st @ [Scroll_To_Mark textview mark]\<rparr>"

definition gtk_text_view_scroll_to_iter :: "wid \<Rightarrow> text_iter \<Rightarrow> gui_state \<Rightarrow> gui_state" where
  "gtk_text_view_scroll_to_iter textview iter st =
     st\<lparr>ui_calls := ui_calls st @ [Scroll_To_Iter textview iter]\<rparr>"

text \<open>
  Modelled from the spec: \<^verbatim>\<open>append_network_statusbar\<close> of pages.c, which is not among
  the source files. The spec does not describe it; the call is recorded with its
  arguments and taken to leave the message buffer alone.
\<close>

definition append_network_statusbar :: "string \<Rightarrow> bool \<Rightarrow> gui_state \<Rightarrow> gui_state" where
  "append_network_statusbar text force st =
     st\<lparr>ui_calls := ui_calls st @ [Append_Network_Statusbar text force]\<rparr>"

text \<open>
  \<^verbatim>\<open>g_return_if_fail(expr)\<close>: when \<open>expr\<close> is false the function logs a critical
  message naming the expression and returns at once.
\<close>

definition g_return_if_fail_failed :: "string \<Rightarrow> gui_state \<Rightarrow> gui_state" where
  "g_return_if_fail_failed expr st = st\<lparr>g_criticals := g_criticals st @ [expr]\<rparr>"

subsection \<open>scroll_if_necessary, lines 75 to 98\<close>

definition scroll_if_necessary ::
  "(real \<Rightarrow> gdouble) \<Rightarrow> wid option \<Rightarrow> text_mark option \<Rightarrow> gui_state \<Rightarrow> gui_state" where
  "scroll_if_necessary rnd textview scroll_target st =
     (case textview of
        None \<Rightarrow> g_return_if_fail_failed ''textview != NULL'' st
      | Some tv \<Rightarrow>
     (case scroll_target of
        None \<Rightarrow> g_return_if_fail_failed ''scroll_target != NULL'' st
      | Some mark \<Rightarrow>
     (case widget_parent st tv of
        None \<Rightarrow> g_return_if_fail_failed ''sw != NULL'' st
      | Some sw \<Rightarrow>
     (case scrolled_window_vadj st sw of
        None \<Rightarrow> g_return_if_fail_failed ''GTK_IS_SCROLLED_WINDOW(sw)'' st
      | Some vadj \<Rightarrow>
          let val = adj_value vadj;
              upper = adj_upper vadj;
              page_size = adj_page_size vadj;
              maxv = dsub rnd upper page_size
          in if dless (dsub rnd maxv val) (Finite 10)
             then gtk_text_view_scroll_to_mark tv mark st
             else st))))"

text \<open>The vertical adjustment of the scrolled window that is the parent of a text view.\<close>

definition enclosing_vadj :: "gui_state \<Rightarrow> wid \<Rightarrow> adjustment option" where
  "enclosing_vadj st tv =
     (case widget_parent st tv of None \<Rightarrow> None | Some sw \<Rightarrow> scrolled_window_vadj st sw)"

subsection \<open>The timestamp\<close>

text \<open>
  \<^verbatim>\<open>localtime\<close> fills a \<^verbatim>\<open>struct tm\<close>; the three fields the pattern reads are kept.
  \<^verbatim>\<open>strftime\<close> copies the pattern, replacing \<^verbatim>\<open>%H\<close>, \<^verbatim>\<open>%M\<close> and \<^verbatim>\<open>%S\<close> by the
  field as two decimal digits; it writes nothing definite when the result and its
  terminating zero do not fit into \<open>maxsize\<close> bytes.
\<close>

record tm =
  tm_sec :: nat
  tm_min :: nat
  tm_hour :: nat

definition digit_char :: "nat \<Rightarrow> char" where
  "digit_char d = char_of (48 + d mod 10)"

definition two_digits :: "nat \<Rightarrow> string" where
  "two_digits n = [digit_char (n div 10), digit_char n]"

fun strftime_expand :: "string \<Rightarrow> tm \<Rightarrow> string" where
  "strftime_expand [] t = []"
| "strftime_expand [c] t = [c]"
| "strftime_expand (c # d # cs) t =
     (if c = CHR ''%'' then
        (if d = CHR ''H'' then two_digits (tm_hour t)
         else if d = CHR ''M'' then two_digits (tm_min t)
         else if d = CHR ''S'' then two_digits (tm_sec t)
         else if d = CHR ''%'' then [d]
         else [c, d]) @ strftime_expand cs t
      else c # strftime_expand (d # cs) t)"

definition strftime :: "nat \<Rightarrow> string \<Rightarrow> tm \<Rightarrow> string option" where
  "strftime maxsize format t =
     (let r = strftime_expand format t in if length r < maxsize then Some r else None)"

subsection \<open>real_append_output_window, lines 104 to 137\<close>

text \<open>
  \<open>now_tm\<close> is the local time the call reads from the clock. The code hands
  \<^verbatim>\<open>message_buffer\<close> to the toolkit unchecked and inserts \<^verbatim>\<open>timebuf\<close> whatever
  \<^verbatim>\<open>strftime\<close> returned; a \<^verbatim>\<open>NULL\<close> buffer and an unwritten \<^verbatim>\<open>timebuf\<close> are the two
  failures of the model.
\<close>

datatype failure = Null_Message_Buffer | Unwritten_Timebuf

definition real_append_output_window ::
  "(real \<Rightarrow> gdouble) \<Rightarrow> tm \<Rightarrow> string \<Rightarrow> int \<Rightarrow> gui_state \<Rightarrow> failure + gui_state" where
  "real_append_output_window rnd now_tm astring conn_id st =
     (case message_buffer st of
        None \<Rightarrow> Inl Null_Message_Buffer
      | Some buf \<Rightarrow>
          let iter0 = gtk_text_buffer_get_end_iter buf;
              (buf1, iter1) = gtk_text_buffer_insert buf iter0 [CHR 0x0A];
              (buf2, mark) = gtk_text_buffer_create_mark buf1 iter1;
              stamped =
                (if show_chat_message_time st then
                   (case strftime 64 ''[%H:%M:%S] '' now_tm of
                      None \<Rightarrow> None
                    | Some timebuf \<Rightarrow> Some (gtk_text_buffer_insert buf2 iter1 timebuf))
                 else Some (buf2, iter1))
          in (case stamped of
                None \<Rightarrow> Inl Unwritten_Timebuf
              | Some (buf3, iter3) \<Rightarrow>
                  let (buf4, iter4) = gtk_text_buffer_insert buf3 iter3 astring;
                      st1 = st\<lparr>message_buffer := Some buf4\<rparr>;
                      st2 = (case main_message_area st1 of
                               None \<Rightarrow> st1
                             | Some w \<Rightarrow> scroll_if_necessary rnd (Some w) (Some mark) st1);
                      st3 = (case start_message_area st2 of
                               None \<Rightarrow> st2
                             | Some w \<Rightarrow> scroll_if_necessary rnd (Some w) (Some mark) st2);
                      st4 = st3\<lparr>message_buffer := Some (gtk_text_buffer_delete_mark buf4 mark)\<rparr>
                  in Inr (append_network_statusbar astring False st4)))"

subsection \<open>chatline_scroll_to_bottom, lines 175 to 192\<close>

definition chatline_scroll_to_bottom :: "gui_state \<Rightarrow> gui_state" where
  "chatline_scroll_to_bottom st =
     (case message_buffer st of
        None \<Rightarrow> st
      | Some buf \<Rightarrow>
          let end_iter = gtk_text_buffer_get_end_iter buf;
              st1 = (case main_message_area st of
                       None \<Rightarrow> st
                     | Some w \<Rightarrow> gtk_text_view_scroll_to_iter w end_iter st);
              st2 = (case start_message_area st1 of
                       None \<Rightarrow> st1
                     | Some w \<Rightarrow> gtk_text_view_scroll_to_iter w end_iter st1)
          in st2)"

subsection \<open>Well-formed buffers and a sample state\<close>

text \<open>Every mark of a buffer lies within its text.\<close>

definition marks_ok :: "text_buffer \<Rightarrow> bool" where
  "marks_ok buf = list_all (\<lambda>(m, off). off \<le> length (buf_text buf)) (buf_marks buf)"

text \<open>
  A state to run the functions on: text view 1 lies in scrolled window 2, whose
  adjustment has the value \<open>v\<close>, the upper bound 100 and the page size 20; text view 3
  lies in widget 4, which is not a scrolled window. The buffer holds one line and one
  mark.
\<close>

definition sample_gui :: "gdouble \<Rightarrow> bool \<Rightarrow> gui_state" where
  "sample_gui v stamp =
     \<lparr>message_buffer = Some \<lparr>buf_text = ''Welcome'', buf_marks = [(1, 3)]\<rparr>,
      main_message_area = Some 1,
      start_message_area = None,
      show_chat_message_time = stamp,
      widget_parent = (\<lambda>w. if w = 1 then Some 2 else if w = 3 then Some 4 else None),
      scrolled_window_vadj =
        (\<lambda>w. if w = 2
             then Some \<lparr>adj_value = v, adj_upper = Finite 100, adj_page_size = Finite 20\<rparr>
             else None),
      ui_calls = [],
      g_criticals = []\<rparr>"

section \<open>The specenum definition files\<close>

text \<open>
  A specenum block names the enumeration, gives its options and lists its values: an
  identifier and, for most values, a name string, which is either a plain string or one
  marked for translation with \<^verbatim>\<open>N_(...)\<close>. The comments of the files are left out.
\<close>

datatype name_string = Plain string | Marked string

datatype specenum_value = Value (value_id: string) (value_name: "name_string option")

record specenum =
  enum_name :: string
  enum_prefix :: string
  name_override :: bool
  bitvector :: "string option"
  has_count :: bool
  style_identifiers_sorted :: bool
  enum_values :: "specenum_value list"

text \<open>Specenum definitions for common/fc_types.h.\<close>

definition impr_flag_id :: specenum where
  "impr_flag_id =
     \<lparr>enum_name = ''impr_flag_id'', enum_prefix = ''IF_'', name_override = True,
      bitvector = Some ''bv_impr_flags'', has_count = True, style_identifiers_sorted = False,
      enum_values =
        [Value ''VISIBLE_BY_OTHERS'' (Some (Plain ''VisibleByOthers'')),
         Value ''SAVE_SMALL_WONDER'' (Some (Plain ''SaveSmallWonder'')),
         Value ''GOLD'' (Some (Plain ''Gold'')),
         Value ''DISASTER_PROOF'' (Some (Plain ''DisasterProof'')),
         Value ''INDESTRUCTIBLE'' (Some (Plain ''Indestructible'')),
         Value ''USER_FLAG_1'' None,
         Value ''USER_FLAG_2'' None,
         Value ''USER_FLAG_3'' None,
         Value ''USER_FLAG_4'' None,
         Value ''USER_FLAG_5'' None,
         Value ''USER_FLAG_6'' None,
         Value ''USER_FLAG_7'' None,
         Value ''USER_FLAG_8'' None]\<rparr>"

text \<open>Specenum definitions for common/terrain.h.\<close>

definition terrain_class :: specenum where
  "terrain_class =
     \<lparr>enum_name = ''terrain_class'', enum_prefix = ''TC_'', name_override = False,
      bitvector = None, has_count = True, style_identifiers_sorted = True,
      enum_values =
        [Value ''LAND'' (Some (Marked ''Land'')),
         Value ''OCEAN'' (Some (Marked ''Oceanic''))]\<rparr>"

definition terrain_alteration :: specenum where
  "terrain_alteration =
     \<lparr>enum_name = ''terrain_alteration'', enum_prefix = ''TA_'', name_override = False,
      bitvector = None, has_count = True, style_identifiers_sorted = True,
      enum_values =
        [Value ''CAN_BASE'' (Some (Marked ''CanBase'')),
         Value ''CAN_IRRIGATE'' (Some (Marked ''CanIrrigate'')),
         Value ''CAN_MINE'' (Some (Marked ''CanMine'')),
         Value ''CAN_PLACE'' (Some (Marked ''CanPlace'')),
         Value ''CAN_ROAD'' (Some (Marked ''CanRoad''))]\<rparr>"

definition terrain_flag_id :: specenum where
  "terrain_flag_id =
     \<lparr>enum_name = ''terrain_flag_id'', enum_prefix = ''TER_'', name_override = True,
      bitvector = Some ''bv_terrain_flags'', has_count = False,
      style_identifiers_sorted = True,
      enum_values =
        [Value ''CAN_HAVE_RIVER'' (Some (Marked ''CanHaveRiver'')),
         Value ''ENTER_BORDERS'' (Some (Marked ''EnterBorders'')),
         Value ''FRESHWATER'' (Some (Marked ''FreshWater'')),
         Value ''FROZEN'' (Some (Marked ''Frozen'')),
         Value ''NOT_GENERATED'' (Some (Marked ''NotGenerated'')),
         Value ''NO_BARBS'' (Some (Marked ''NoBarbs'')),
         Value ''NO_CITIES'' (Some (Marked ''NoCities'')),
         Value ''NO_ZOC'' (Some (Marked ''NoZoc'')),
         Value ''STARTER'' (Some (Marked ''Starter'')),
         Value ''UNSAFE_COAST'' (Some (Marked ''UnsafeCoast'')),
         Value ''USER_1'' None,
         Value ''USER_2'' None,
         Value ''USER_3'' None,
         Value ''USER_4'' None,
         Value ''USER_5'' None,
         Value ''USER_6'' None,
         Value ''USER_7'' None,
         Value ''USER_8'' None,
         Value ''USER_9'' None,
         Value ''USER_LAST'' None]\<rparr>"

definition mapgen_terrain_property :: specenum where
  "mapgen_terrain_property =
     \<lparr>enum_name = ''mapgen_terrain_property'', enum_prefix = ''MG_'', name_override = False,
      bitvector = None, has_count = True, style_identifiers_sorted = True,
      enum_values =
        [Value ''COLD'' (Some (Plain ''cold'')),
         Value ''DRY'' (Some (Plain ''dry'')),
         Value ''FOLIAGE'' (Some (Plain ''foliage'')),
         Value ''FROZEN'' (Some (Plain ''frozen'')),
         Value ''GREEN'' (Some (Plain ''green'')),
         Value ''MOUNTAINOUS'' (Some (Plain ''mountainous'')),
         Value ''OCEAN_DEPTH'' (Some (Plain ''ocean_depth'')),
         Value ''TEMPERATE'' (Some (Plain ''temperate'')),
         Value ''TROPICAL'' (Some (Plain ''tropical'')),
         Value ''WET'' (Some (Plain ''wet''))]\<rparr>"

text \<open>The blocks of the two files, in the order they are written.\<close>

definition specenum_blocks :: "specenum list" where
  "specenum_blocks =
     [impr_flag_id, terrain_class, terrain_alteration, terrain_flag_id,
      mapgen_terrain_property]"

text \<open>The identifiers of the values that carry a name string.\<close>

definition named_identifiers :: "specenum \<Rightarrow> string list" where
  "named_identifiers e = map value_id (filter (\<lambda>v. value_name v \<noteq> None) (enum_values e))"

text \<open>
  The order of \<^verbatim>\<open>strcmp\<close> on ASCII strings: the first differing character decides by
  its code, and a proper prefix comes first.
\<close>

fun ascii_less :: "string \<Rightarrow> string \<Rightarrow> bool" where
  "ascii_less [] [] = False"
| "ascii_less [] (y # ys) = True"
| "ascii_less (x # xs) [] = False"
| "ascii_less (x # xs) (y # ys) =
     ((of_char x :: nat) < of_char y \<or> (x = y \<and> ascii_less xs ys))"

fun strictly_ascending :: "string list \<Rightarrow> bool" where
  "strictly_ascending [] = True"
| "strictly_ascending [x] = True"
| "strictly_ascending (x # y # ys) = (ascii_less x y \<and> strictly_ascending (y # ys))"

section \<open>The build description of the tex AI module (ai/tex/Makefile.am)\<close>

text \<open>
  A Makefile.am is a list of statements: an assignment of words to a variable, or a
  block under an automake conditional with its \<^verbatim>\<open>else\<close> part.
\<close>

datatype am_stmt =
  Assign string "string list"
| If_Cond string "am_stmt list" "am_stmt list"

definition da_sources :: "string list" where
  "da_sources =
     [''texaicity.c'', ''texaicity.h'', ''texaimsg.c'', ''texaimsg.h'', ''texaiplayer.c'',
      ''texaiplayer.h'', ''texaiworld.c'', ''texaiworld.h'', ''texai.c'']"

definition tex_makefile_am :: "am_stmt list" where
  "tex_makefile_am =
     [If_Cond ''AI_MOD_STATIC_TEX''
        [Assign ''noinst_LTLIBRARIES'' [''libtexai.la'']]
        [Assign ''aimodule_LTLIBRARIES'' [''fc_ai_tex.la'']],
      Assign ''AM_CPPFLAGS''
        [''-I$(top_srcdir)/utility'',
         ''-I$(top_srcdir)/common'',
         ''-I$(top_srcdir)/common/aicore'',
         ''-I$(top_srcdir)/common/networking'',
         ''-I$(top_srcdir)/server/'',
         ''-I$(top_srcdir)/server/advisors'',
         ''-I$(top_srcdir)/ai/default'',
         ''-I$(top_srcdir)/dependencies/tinycthread'',
         ''-I$(top_srcdir)/gen_headers/enums''],
      Assign ''da_sources'' da_sources,
      If_Cond ''AI_MOD_STATIC_TEX''
        [Assign ''libtexai_la_SOURCES'' [''$(da_sources)'']]
        [Assign ''fc_ai_tex_la_SOURCES'' [''$(da_sources)''],
         Assign ''fc_ai_tex_la_LDFLAGS'' [''-module'']]]"

text \<open>
  The assignments in force under a truth assignment \<open>c\<close> to the conditionals, in the
  order they are written.
\<close>

fun active :: "(string \<Rightarrow> bool) \<Rightarrow> am_stmt \<Rightarrow> (string \<times> string list) list" where
  "active c (Assign v ws) = [(v, ws)]"
| "active c (If_Cond n ts es) =
     (if c n then concat (map (active c) ts) else concat (map (active c) es))"

definition am_vars :: "(string \<Rightarrow> bool) \<Rightarrow> am_stmt list \<Rightarrow> (string \<times> string list) list" where
  "am_vars c mf = concat (map (active c) mf)"

text \<open>A word of the form \<^verbatim>\<open>$(name)\<close> stands for the words of the variable \<open>name\<close>.\<close>

definition var_ref :: "string \<Rightarrow> string option" where
  "var_ref w =
     (if 3 < length w \<and> take 2 w = ''$('' \<and> last w = CHR '')''
      then Some (butlast (drop 2 w)) else None)"

definition expand :: "(string \<times> string list) list \<Rightarrow> string \<Rightarrow> string list" where
  "expand vars w =
     (case var_ref w of
        None \<Rightarrow> [w]
      | Some v \<Rightarrow> (case map_of vars v of None \<Rightarrow> [w] | Some ws \<Rightarrow> ws))"

definition am_value :: "(string \<times> string list) list \<Rightarrow> string \<Rightarrow> string list option" where
  "am_value vars v = map_option (\<lambda>ws. concat (map (expand vars) ws)) (map_of vars v)"

text \<open>
  The libtool libraries a Makefile.am builds are the words of the variables whose name
  ends in \<^verbatim>\<open>_LTLIBRARIES\<close>; the variables of one library carry its name with every
  character other than a letter, a digit and the underscore replaced by an underscore.
\<close>

definition is_ltlibraries :: "string \<Rightarrow> bool" where
  "is_ltlibraries v =
     (length ''_LTLIBRARIES'' \<le> length v
      \<and> drop (length v - length ''_LTLIBRARIES'') v = ''_LTLIBRARIES'')"

definition library_targets :: "(string \<times> string list) list \<Rightarrow> (string \<times> string list) list" where
  "library_targets vars = filter (\<lambda>(v, ws). is_ltlibraries v) vars"

definition canonical_char :: "char \<Rightarrow> char" where
  "canonical_char ch =
     (let n = (of_char ch :: nat)
      in if (48 \<le> n \<and> n \<le> 57) \<or> (65 \<le> n \<and> n \<le> 90) \<or> (97 \<le> n \<and> n \<le> 122) \<or> n = 95
         then ch else CHR ''_'')"

definition target_var :: "string \<Rightarrow> string \<Rightarrow> string" where
  "target_var lib suffix = map canonical_char lib @ suffix"

section \<open>The Mongol nation ruleset (data/nation/mongol.ruleset)\<close>

text \<open>
  A table of a ruleset file has a row of column names and rows of entries; an entry is
  a string, plain or marked for translation with \<^verbatim>\<open>_(...)\<close>. The names are the
  bytes of the file, which is UTF-8; the comments after the semicolons are left out.
\<close>

datatype entry = Str string | Tr string

fun entry_string :: "entry \<Rightarrow> string" where
  "entry_string (Str s) = s"
| "entry_string (Tr s) = s"

record table =
  column_names :: "string list"
  table_rows :: "entry list list"

definition leaders :: table where
  "leaders =
   \<lparr>column_names = [''name'', ''sex''],
    table_rows =
     [
      [Str ''Chinggis'', Str ''Male''],
      [Str (''B'' @ [CHR 0xC3, CHR 0xB6] @ ''rte''), Str ''Female''],
      [Str ([CHR 0xC3, CHR 0x96] @ ''gedei''), Str ''Male''],
      [Str ''Bat'', Str ''Male''],
      [Str ''Tsagadai'', Str ''Male''],
      [Str ''Tolui'', Str ''Male''],
      [Str ''Tokhtamysh'', Str ''Male''],
      [Str (''S'' @ [CHR 0xC3, CHR 0xBC] @ ''beedei''), Str ''Male''],
      [Str (''D'' @ [CHR 0xC3, CHR 0xB6] @ ''rgene''), Str ''Female''],
      [Str (''G'' @ [CHR 0xC3, CHR 0xBC] @ ''y'' @ [CHR 0xC3, CHR 0xBC] @ ''k''), Str ''Male''],
      [Str (''M'' @ [CHR 0xC3, CHR 0xB6] @ ''nkh''), Str ''Male''],
      [Str ''Khubilai'', Str ''Male''],
      [Str (''Kh'' @ [CHR 0xC3, CHR 0xBC] @ ''leg'' @ [CHR 0xC3, CHR 0xBC]), Str ''Male''],
      [Str ''Mandukhai'', Str ''Female'']]\<rparr>"

definition ruler_titles :: table where
  "ruler_titles =
   \<lparr>column_names = [''government'', ''male_title'', ''female_title''],
    table_rows =
     [[Str ''Despotism'', Tr ''%s Khan'', Tr ''%s Khatan''],
      [Str ''Monarchy'', Tr ''%s Khagan'', Tr ''?female:%s Khagan'']]\<rparr>"

text \<open>The entries of the column with a given name, when every row has one.\<close>

fun index_of :: "string \<Rightarrow> string list \<Rightarrow> nat option" where
  "index_of n [] = None"
| "index_of n (x # xs) = (if x = n then Some 0 else map_option Suc (index_of n xs))"

definition column :: "string \<Rightarrow> table \<Rightarrow> entry list option" where
  "column n t =
     (case index_of n (column_names t) of
        None \<Rightarrow> None
      | Some i \<Rightarrow>
          if list_all (\<lambda>r. i < length r) (table_rows t)
          then Some (map (\<lambda>r. r ! i) (table_rows t)) else None)"

definition every_entry :: "(entry \<Rightarrow> bool) \<Rightarrow> string \<Rightarrow> table \<Rightarrow> bool" where
  "every_entry P n t = (case column n t of None \<Rightarrow> False | Some es \<Rightarrow> list_all P es)"

fun starts_with :: "string \<Rightarrow> string \<Rightarrow> bool" where
  "starts_with [] s = True"
| "starts_with (p # ps) [] = False"
| "starts_with (p # ps) (c # cs) = (p = c \<and> starts_with ps cs)"

fun contains :: "string \<Rightarrow> string \<Rightarrow> bool" where
  "contains p [] = (p = [])"
| "contains p (c # cs) = (starts_with p (c # cs) \<or> contains p cs)"

definition sex_value :: "entry \<Rightarrow> bool" where
  "sex_value e = (e = Str ''Male'' \<or> e = Str ''Female'')"

definition has_name_substitution :: "entry \<Rightarrow> bool" where
  "has_name_substitution e = contains ''%s'' (entry_string e)"

section \<open>Properties of the chat input line\<close>

lemma unlink_first_last:
  "distinct l \<Longrightarrow> l \<noteq> [] \<Longrightarrow> unlink_first (last l) l = butlast l"
  by (induction l) auto

lemma length_unlink_first:
  "d \<in> set l \<Longrightarrow> Suc (length (unlink_first d l)) = length l"
  by (induction l) auto

lemma set_unlink_first:
  "set (unlink_first d l) \<subseteq> set l"
  by (induction l) auto

lemma distinct_unlink_first:
  "distinct l \<Longrightarrow> distinct (unlink_first d l)"
  using set_unlink_first by (induction l) auto

lemma history_list_inputline_return:
  assumes "entry_text s \<noteq> []"
  shows "history_list (inputline_return max_history p s) =
           p # (if max_history \<le> genlist_size (history_list s)
                then genlist_unlink (history_list s) (genlist_get (history_list s) (-1))
                else history_list s)"
  using assms by (simp add: inputline_return_def send_chat_def genlist_prepend_def Let_def)

lemma heap_inputline_return:
  assumes "entry_text s \<noteq> []"
  shows "heap (inputline_return max_history p s) =
           mystrdup p (entry_text s)
             (if max_history \<le> genlist_size (history_list s)
              then free_ptr (genlist_get (history_list s) (-1)) (heap s)
              else heap s)"
  using assms by (simp add: inputline_return_def send_chat_def Let_def)

lemma unlink_tail:
  assumes "distinct l" and "l \<noteq> []"
  shows "genlist_unlink l (genlist_get l (-1)) = butlast l"
  using assms by (simp add: genlist_unlink_def genlist_get_def unlink_first_last)

text \<open>
  The invariant is kept when the new allocation is at an address that is not live once
  the tail's string has been freed (the allocator may hand out the address just freed).
\<close>

lemma history_ok_inputline_return:
  assumes ok: "history_ok s"
    and fresh: "(if max_history \<le> genlist_size (history_list s)
                 then free_ptr (genlist_get (history_list s) (-1)) (heap s)
                 else heap s) p = None"
  shows "history_ok (inputline_return max_history p s)"
proof (cases "entry_text s = []")
  case True
  then have "inputline_return max_history p s = s"
    by (simp add: inputline_return_def)
  with ok show ?thesis by simp
next
  case False
  let ?l = "history_list s"
  let ?l' = "if max_history \<le> genlist_size ?l
             then genlist_unlink ?l (genlist_get ?l (-1)) else ?l"
  let ?h' = "if max_history \<le> genlist_size ?l
             then free_ptr (genlist_get ?l (-1)) (heap s) else heap s"
  from ok have d: "distinct ?l" and live: "\<forall>x \<in> set ?l. heap s x \<noteq> None"
    by (simp_all add: history_ok_def list_all_iff)
  have d': "distinct ?l'"
    using d by (auto simp: genlist_unlink_def distinct_unlink_first split: option.splits)
  have live': "\<forall>x \<in> set ?l'. ?h' x \<noteq> None"
  proof (cases "max_history \<le> genlist_size ?l \<and> ?l \<noteq> []")
    case True
    then have "?l' = butlast ?l"
      using d by (simp add: unlink_tail)
    moreover have "?h' = (heap s)(last ?l := None)"
      using True by (simp add: free_ptr_def genlist_get_def)
    moreover have "last ?l \<notin> set (butlast ?l)"
      using d True by (metis append_butlast_last_id distinct_butlast not_distinct_conv_prefix)
    ultimately show ?thesis
      using live by (auto dest: in_set_butlastD)
  next
    case False
    then show ?thesis
      using live by (auto simp: genlist_unlink_def genlist_get_def free_ptr_def)
  qed
  have notin: "p \<notin> set ?l'"
  proof
    assume "p \<in> set ?l'"
    with live' have "?h' p \<noteq> None" by (rule bspec)
    with fresh show False by (rule notE [rotated])
  qed
  have "history_list (inputline_return max_history p s) = p # ?l'"
    using False by (rule history_list_inputline_return)
  moreover have "heap (inputline_return max_history p s) = ?h'(p \<mapsto> entry_text s)"
    using heap_inputline_return [OF False] by (simp only: mystrdup_def)
  ultimately show ?thesis
    using d' live' notin by (auto simp: history_ok_def list_all_iff)
qed

text \<open>
  The cap rests on \<^verbatim>\<open>MAX_CHATLINE_HISTORY\<close> being positive: with a cap of zero the
  empty history has no tail to unlink, and the call leaves one entry.
\<close>

lemma inputline_return_zero_cap:
  "history_list (inputline_return 0 7
      \<lparr>history_list = [], history_pos = 0, heap = Map.empty, entry_text = ''hi'',
       chat_sent = []\<rparr>) = [7]"
  by (simp add: inputline_return_def send_chat_def genlist_size_def genlist_get_def
      genlist_unlink_def genlist_prepend_def free_ptr_def mystrdup_def Let_def)

text \<open>
  C1. With a non-empty entry text and a positive \<^verbatim>\<open>MAX_CHATLINE_HISTORY\<close>: when the
  history already holds \<^verbatim>\<open>MAX_CHATLINE_HISTORY\<close> or more entries, the tail (oldest) entry
  is unlinked and its string freed, and the copy of the input is then put at the front;
  so a history of at most \<^verbatim>\<open>MAX_CHATLINE_HISTORY\<close> entries has at most that many after
  the call.
\<close>

theorem inputline_return_caps_history:
  assumes "0 < max_history" and "entry_text s \<noteq> []"
  shows "(max_history \<le> genlist_size (history_list s) \<and> distinct (history_list s) \<longrightarrow>
            history_list (inputline_return max_history p s) = p # butlast (history_list s)
          \<and> heap (inputline_return max_history p s) =
              ((heap s)(last (history_list s) := None))(p \<mapsto> entry_text s))
       \<and> (genlist_size (history_list s) < max_history \<longrightarrow>
            history_list (inputline_return max_history p s) = p # history_list s
          \<and> heap (inputline_return max_history p s) = (heap s)(p \<mapsto> entry_text s))
       \<and> (genlist_size (history_list s) \<le> max_history \<longrightarrow>
            genlist_size (history_list (inputline_return max_history p s)) \<le> max_history)"
proof (cases "max_history \<le> genlist_size (history_list s)")
  case True
  with assms(1) have ne: "history_list s \<noteq> []"
    by (auto simp: genlist_size_def)
  have l: "history_list (inputline_return max_history p s) = p # butlast (history_list s)"
    if "distinct (history_list s)"
    using True assms(2) ne that by (simp add: history_list_inputline_return unlink_tail)
  have h: "heap (inputline_return max_history p s) =
             ((heap s)(last (history_list s) := None))(p \<mapsto> entry_text s)"
    using True assms(2) ne
    by (simp add: heap_inputline_return mystrdup_def free_ptr_def genlist_get_def)
  have "history_list (inputline_return max_history p s) =
          p # unlink_first (last (history_list s)) (history_list s)"
    using True assms(2) ne
    by (simp add: history_list_inputline_return genlist_unlink_def genlist_get_def)
  moreover have "Suc (length (unlink_first (last (history_list s)) (history_list s))) =
          length (history_list s)"
    using ne by (simp add: length_unlink_first)
  ultimately have "genlist_size (history_list (inputline_return max_history p s)) =
          genlist_size (history_list s)"
    by (simp add: genlist_size_def)
  with l h True show ?thesis by simp
next
  case False
  have l: "history_list (inputline_return max_history p s) = p # history_list s"
    using False assms(2) by (simp add: history_list_inputline_return)
  have h: "heap (inputline_return max_history p s) = (heap s)(p \<mapsto> entry_text s)"
    using False assms(2) by (simp add: heap_inputline_return mystrdup_def)
  from l h False show ?thesis by (simp add: genlist_size_def)
qed

theorem inputline_return_caps_history_witness:
  "history_list (inputline_return 2 7
      \<lparr>history_list = [5, 3], history_pos = 0,
       heap = [3 \<mapsto> ''hello'', 5 \<mapsto> ''hi''], entry_text = ''bye'', chat_sent = []\<rparr>)
     = [7, 5]
   \<and> genlist_size (history_list (inputline_return 2 7
      \<lparr>history_list = [5, 3], history_pos = 0,
       heap = [3 \<mapsto> ''hello'', 5 \<mapsto> ''hi''], entry_text = ''bye'', chat_sent = []\<rparr>)) \<le> 2
   \<and> heap (inputline_return 2 7
      \<lparr>history_list = [5, 3], history_pos = 0,
       heap = [3 \<mapsto> ''hello'', 5 \<mapsto> ''hi''], entry_text = ''bye'', chat_sent = []\<rparr>) 3 = None"
  using inputline_return_caps_history [of 2
      "\<lparr>history_list = [5, 3], history_pos = 0,
        heap = [3 \<mapsto> ''hello'', 5 \<mapsto> ''hi''], entry_text = ''bye'', chat_sent = []\<rparr>" 7]
  by (simp add: genlist_size_def)

text \<open>
  C5. An empty entry text sends nothing and leaves the history list, the strings it
  points to and \<^verbatim>\<open>history_pos\<close> as they were; the entry text is the empty string after
  every call, so also after a call that sent a message.
\<close>

theorem inputline_return_empty_entry:
  "entry_text (inputline_return max_history p s) = []
   \<and> (entry_text s = [] \<longrightarrow>
        chat_sent (inputline_return max_history p s) = chat_sent s
      \<and> history_list (inputline_return max_history p s) = history_list s
      \<and> history_pos (inputline_return max_history p s) = history_pos s
      \<and> heap (inputline_return max_history p s) = heap s
      \<and> inputline_return max_history p s = s)
   \<and> (entry_text s \<noteq> [] \<longrightarrow>
        chat_sent (inputline_return max_history p s) = chat_sent s @ [entry_text s])"
  by (simp add: inputline_return_def send_chat_def Let_def)

theorem inputline_return_empty_entry_witness:
  "entry_text (inputline_return 20 9
      \<lparr>history_list = [4], history_pos = 0, heap = [4 \<mapsto> ''gg''],
       entry_text = [], chat_sent = [''gg'']\<rparr>) = []
   \<and> chat_sent (inputline_return 20 9
      \<lparr>history_list = [4], history_pos = 0, heap = [4 \<mapsto> ''gg''],
       entry_text = [], chat_sent = [''gg'']\<rparr>) = [''gg'']
   \<and> history_list (inputline_return 20 9
      \<lparr>history_list = [4], history_pos = 0, heap = [4 \<mapsto> ''gg''],
       entry_text = [], chat_sent = [''gg'']\<rparr>) = [4]
   \<and> history_pos (inputline_return 20 9
      \<lparr>history_list = [4], history_pos = 0, heap = [4 \<mapsto> ''gg''],
       entry_text = [], chat_sent = [''gg'']\<rparr>) = 0
   \<and> chat_sent (inputline_return 20 9
      \<lparr>history_list = [4], history_pos = 0, heap = [4 \<mapsto> ''gg''],
       entry_text = ''hi'', chat_sent = [''gg'']\<rparr>) = [''gg'', ''hi'']"
  using inputline_return_empty_entry [of 20 9
      "\<lparr>history_list = [4], history_pos = 0, heap = [4 \<mapsto> ''gg''],
        entry_text = [], chat_sent = [''gg'']\<rparr>"]
    inputline_return_empty_entry [of 20 9
      "\<lparr>history_list = [4], history_pos = 0, heap = [4 \<mapsto> ''gg''],
        entry_text = ''hi'', chat_sent = [''gg'']\<rparr>"]
  by simp

section \<open>Properties of the chat output window\<close>

subsection \<open>The buffer operations\<close>

lemma buf_text_insert:
  "buf_text (fst (gtk_text_buffer_insert buf iter txt)) =
     take iter (buf_text buf) @ txt @ drop iter (buf_text buf)"
  by (simp add: gtk_text_buffer_insert_def)

lemma snd_insert: "snd (gtk_text_buffer_insert buf iter txt) = iter + length txt"
  by (simp add: gtk_text_buffer_insert_def)

lemma buf_text_create_mark:
  "buf_text (fst (gtk_text_buffer_create_mark buf iter)) = buf_text buf"
  by (simp add: gtk_text_buffer_create_mark_def Let_def)

lemma buf_text_delete_mark:
  "buf_text (gtk_text_buffer_delete_mark buf mark) = buf_text buf"
  by (simp add: gtk_text_buffer_delete_mark_def)

lemma fold_max_ge: "m \<in> set xs \<Longrightarrow> m \<le> fold max xs (a::nat)"
proof (induction xs arbitrary: a)
  case Nil
  then show ?case by simp
next
  case (Cons x xs)
  have mono: "a \<le> fold max xs a" for a :: nat and xs
    by (induction xs arbitrary: a) (auto intro: order_trans [OF max.cobounded2])
  from Cons show ?case
    by (auto intro: order_trans [OF max.cobounded1 mono])
qed

lemma marks_insert_unshifted:
  fixes n iter k :: nat
  assumes "list_all (\<lambda>(m, off). off \<le> n) marks" and "n \<le> iter"
  shows "map (\<lambda>(m, off). (m, if iter < off then off + k else off)) marks = marks"
proof (rule map_idI)
  fix x assume "x \<in> set marks"
  with assms(1) have "snd x \<le> n" by (auto simp: list_all_iff)
  with assms(2) show "(case x of (m, off) \<Rightarrow> (m, if iter < off then off + k else off)) = x"
    by (cases x) simp
qed

lemma marks_delete_fresh:
  "filter (\<lambda>(m, off). m \<noteq> Suc (fold max (map fst marks) 0)) marks = marks"
proof -
  have "\<forall>x \<in> set marks. fst x \<noteq> Suc (fold max (map fst marks) 0)"
    using fold_max_ge [of _ "map fst marks" 0] by fastforce
  then show ?thesis
    by (auto simp: filter_id_conv)
qed

lemma message_buffer_scroll_if_necessary:
  "message_buffer (scroll_if_necessary rnd textview scroll_target st) = message_buffer st"
  by (simp add: scroll_if_necessary_def g_return_if_fail_failed_def
      gtk_text_view_scroll_to_mark_def Let_def split: option.splits)

lemma strftime_pattern:
  "strftime 64 ''[%H:%M:%S] '' t =
     Some (''['' @ two_digits (tm_hour t) @ '':'' @ two_digits (tm_min t) @ '':''
           @ two_digits (tm_sec t) @ ''] '')"
  by (simp add: strftime_def two_digits_def)

lemma two_digits_examples:
  "two_digits 23 = ''23''" "two_digits 59 = ''59''" "two_digits 5 = ''05''"
  by code_simp+

lemma real_append_output_window_text:
  assumes "message_buffer st = Some buf"
  shows "\<exists>st' buf'. real_append_output_window rnd now_tm astring conn_id st = Inr st'
           \<and> message_buffer st' = Some buf'
           \<and> buf_text buf' =
               buf_text buf @ [CHR 0x0A]
               @ (if show_chat_message_time st
                  then the (strftime 64 ''[%H:%M:%S] '' now_tm) else [])
               @ astring"
  using assms
  by (simp add: real_append_output_window_def gtk_text_buffer_get_end_iter_def
      strftime_pattern Let_def split_beta buf_text_insert snd_insert buf_text_create_mark
      buf_text_delete_mark append_network_statusbar_def message_buffer_scroll_if_necessary
      split: option.splits)

lemma real_append_output_window_buffer:
  assumes "message_buffer st = Some buf" and "marks_ok buf"
  shows "\<exists>st'. real_append_output_window rnd now_tm astring conn_id st = Inr st'
           \<and> message_buffer st' =
               Some (buf\<lparr>buf_text := buf_text buf @ [CHR 0x0A]
                 @ (if show_chat_message_time st
                    then the (strftime 64 ''[%H:%M:%S] '' now_tm) else [])
                 @ astring\<rparr>)"
proof -
  from assms(2) have ok: "list_all (\<lambda>(m, off). off \<le> length (buf_text buf)) (buf_marks buf)"
    by (simp add: marks_ok_def)
  show ?thesis
    using assms(1)
    by (simp add: real_append_output_window_def gtk_text_buffer_get_end_iter_def
      strftime_pattern Let_def split_beta gtk_text_buffer_insert_def
      gtk_text_buffer_create_mark_def gtk_text_buffer_delete_mark_def
      append_network_statusbar_def message_buffer_scroll_if_necessary
      marks_insert_unshifted [OF ok] marks_delete_fresh)
qed

subsection \<open>Scrolling\<close>

text \<open>
  C2. For a text view inside a scrolled window and a mark, \<^verbatim>\<open>scroll_if_necessary\<close>
  makes the one call \<^verbatim>\<open>gtk_text_view_scroll_to_mark\<close> when
  \<^verbatim>\<open>(upper - page_size) - value\<close> of the vertical adjustment, computed on doubles,
  is less than 10.0, and leaves the state as it is otherwise. Where both differences
  are exact the test is the one on the real numbers: at a distance of 10 or more
  nothing is scrolled.
\<close>

theorem scroll_if_necessary_near_bottom:
  assumes "enclosing_vadj st tv = Some vadj"
  shows "scroll_if_necessary rnd (Some tv) (Some mark) st =
           (if dless (dsub rnd (dsub rnd (adj_upper vadj) (adj_page_size vadj)) (adj_value vadj))
                 (Finite 10)
            then st\<lparr>ui_calls := ui_calls st @ [Scroll_To_Mark tv mark]\<rparr>
            else st)
       \<and> (\<forall>u p v. adj_upper vadj = Finite u \<and> adj_page_size vadj = Finite p
              \<and> adj_value vadj = Finite v
              \<and> rnd (u - p) = Finite (u - p) \<and> rnd (u - p - v) = Finite (u - p - v) \<longrightarrow>
            scroll_if_necessary rnd (Some tv) (Some mark) st =
              (if (u - p) - v < 10
               then st\<lparr>ui_calls := ui_calls st @ [Scroll_To_Mark tv mark]\<rparr>
               else st))"
  using assms
  by (auto simp: scroll_if_necessary_def enclosing_vadj_def gtk_text_view_scroll_to_mark_def
      Let_def split: option.splits)

theorem scroll_if_necessary_near_bottom_witness:
  "ui_calls (scroll_if_necessary Finite (Some 1) (Some 7) (sample_gui (Finite 75) True)) =
     [Scroll_To_Mark 1 7]
   \<and> ui_calls (scroll_if_necessary Finite (Some 1) (Some 7) (sample_gui (Finite 70) True)) = []
   \<and> ui_calls (scroll_if_necessary Finite (Some 1) (Some 7) (sample_gui NaN True)) = []"
  using
    scroll_if_necessary_near_bottom [of "sample_gui (Finite 75) True" 1
      "\<lparr>adj_value = Finite 75, adj_upper = Finite 100, adj_page_size = Finite 20\<rparr>" Finite 7]
    scroll_if_necessary_near_bottom [of "sample_gui (Finite 70) True" 1
      "\<lparr>adj_value = Finite 70, adj_upper = Finite 100, adj_page_size = Finite 20\<rparr>" Finite 7]
    scroll_if_necessary_near_bottom [of "sample_gui NaN True" 1
      "\<lparr>adj_value = NaN, adj_upper = Finite 100, adj_page_size = Finite 20\<rparr>" Finite 7]
  by (simp add: sample_gui_def enclosing_vadj_def)

text \<open>
  C7. \<^verbatim>\<open>chatline_scroll_to_bottom\<close> does nothing when \<^verbatim>\<open>message_buffer\<close> is
  \<^verbatim>\<open>NULL\<close>. \<^verbatim>\<open>scroll_if_necessary\<close> makes no scroll call when its text view or its
  mark is \<^verbatim>\<open>NULL\<close>, or when the text view has no parent or a parent that is not a
  scrolled window: it returns with the state changed by one logged critical message only.
\<close>

theorem scrolling_degenerate_input:
  "(message_buffer st = None \<longrightarrow> chatline_scroll_to_bottom st = st)
   \<and> (textview = None \<or> scroll_target = None
        \<or> (\<exists>tv. textview = Some tv \<and> enclosing_vadj st tv = None) \<longrightarrow>
        ui_calls (scroll_if_necessary rnd textview scroll_target st) = ui_calls st
      \<and> (\<exists>expr. scroll_if_necessary rnd textview scroll_target st =
                   st\<lparr>g_criticals := g_criticals st @ [expr]\<rparr>))"
  by (auto simp: chatline_scroll_to_bottom_def scroll_if_necessary_def enclosing_vadj_def
      g_return_if_fail_failed_def split: option.splits)

theorem scrolling_degenerate_input_witness:
  "chatline_scroll_to_bottom ((sample_gui (Finite 75) True)\<lparr>message_buffer := None\<rparr>) =
     (sample_gui (Finite 75) True)\<lparr>message_buffer := None\<rparr>
   \<and> ui_calls (scroll_if_necessary Finite None (Some 7) (sample_gui (Finite 75) True)) = []
   \<and> ui_calls (scroll_if_necessary Finite (Some 1) None (sample_gui (Finite 75) True)) = []
   \<and> ui_calls (scroll_if_necessary Finite (Some 2) (Some 7) (sample_gui (Finite 75) True)) = []
   \<and> ui_calls (scroll_if_necessary Finite (Some 3) (Some 7) (sample_gui (Finite 75) True)) = []"
  using
    scrolling_degenerate_input [of "(sample_gui (Finite 75) True)\<lparr>message_buffer := None\<rparr>"
      None None Finite]
    scrolling_degenerate_input [of "sample_gui (Finite 75) True" None "Some 7" Finite]
    scrolling_degenerate_input [of "sample_gui (Finite 75) True" "Some 1" None Finite]
    scrolling_degenerate_input [of "sample_gui (Finite 75) True" "Some 2" "Some 7" Finite]
    scrolling_degenerate_input [of "sample_gui (Finite 75) True" "Some 3" "Some 7" Finite]
  by (simp add: sample_gui_def enclosing_vadj_def)

subsection \<open>Appending a line\<close>

text \<open>
  C3. With a message buffer in place, \<^verbatim>\<open>real_append_output_window\<close> returns, and
  the text after the call is the text before it, a newline, then, when
  \<^verbatim>\<open>show_chat_message_time\<close> is set, the time as \<^verbatim>\<open>[%H:%M:%S] \<close> prints it, then the
  message; when the flag is not set the message follows the newline directly.
\<close>

theorem real_append_output_window_timestamp:
  assumes "message_buffer st = Some buf"
  shows "\<exists>st' buf'. real_append_output_window rnd now_tm astring conn_id st = Inr st'
           \<and> message_buffer st' = Some buf'
           \<and> strftime 64 ''[%H:%M:%S] '' now_tm =
               Some (''['' @ two_digits (tm_hour now_tm) @ '':'' @ two_digits (tm_min now_tm)
                     @ '':'' @ two_digits (tm_sec now_tm) @ ''] '')
           \<and> (show_chat_message_time st \<longrightarrow>
                buf_text buf' =
                  buf_text buf @ [CHR 0x0A]
                  @ ''['' @ two_digits (tm_hour now_tm) @ '':'' @ two_digits (tm_min now_tm)
                  @ '':'' @ two_digits (tm_sec now_tm) @ ''] '' @ astring)
           \<and> (\<not> show_chat_message_time st \<longrightarrow>
                buf_text buf' = buf_text buf @ [CHR 0x0A] @ astring)"
  using real_append_output_window_text [OF assms, of rnd now_tm astring conn_id]
  by (auto simp: strftime_pattern)

theorem real_append_output_window_timestamp_witness:
  "(\<exists>st' buf'. real_append_output_window Finite \<lparr>tm_sec = 5, tm_min = 59, tm_hour = 23\<rparr>
        ''hello'' 0 (sample_gui (Finite 75) True) = Inr st'
      \<and> message_buffer st' = Some buf'
      \<and> buf_text buf' = ''Welcome'' @ [CHR 0x0A] @ ''[23:59:05] hello'')
   \<and> (\<exists>st' buf'. real_append_output_window Finite \<lparr>tm_sec = 5, tm_min = 59, tm_hour = 23\<rparr>
        ''hello'' 0 (sample_gui (Finite 75) False) = Inr st'
      \<and> message_buffer st' = Some buf'
      \<and> buf_text buf' = ''Welcome'' @ [CHR 0x0A] @ ''hello'')"
  using
    real_append_output_window_timestamp [of "sample_gui (Finite 75) True"
      "\<lparr>buf_text = ''Welcome'', buf_marks = [(1, 3)]\<rparr>" Finite
      "\<lparr>tm_sec = 5, tm_min = 59, tm_hour = 23\<rparr>" "''hello''" 0]
    real_append_output_window_timestamp [of "sample_gui (Finite 75) False"
      "\<lparr>buf_text = ''Welcome'', buf_marks = [(1, 3)]\<rparr>" Finite
      "\<lparr>tm_sec = 5, tm_min = 59, tm_hour = 23\<rparr>" "''hello''" 0]
    two_digits_examples
  by (auto simp: sample_gui_def)

text \<open>
  C4. With a message buffer in place, the call changes the buffer's text only at its
  end: the new text is the old text followed by a newline, the timestamp or nothing,
  and the message, with nothing after the message; every character of the old text is
  at its old position; and in a buffer whose marks lie within the text the marks are
  as before.
\<close>

theorem real_append_output_window_appends:
  assumes "message_buffer st = Some buf"
  shows "\<exists>st' buf' stamp. real_append_output_window rnd now_tm astring conn_id st = Inr st'
           \<and> message_buffer st' = Some buf'
           \<and> (stamp = [] \<or> Some stamp = strftime 64 ''[%H:%M:%S] '' now_tm)
           \<and> buf_text buf' = buf_text buf @ [CHR 0x0A] @ stamp @ astring
           \<and> take (length (buf_text buf)) (buf_text buf') = buf_text buf
           \<and> (\<forall>i. i < length (buf_text buf) \<longrightarrow> buf_text buf' ! i = buf_text buf ! i)
           \<and> (marks_ok buf \<longrightarrow> buf_marks buf' = buf_marks buf)"
proof -
  let ?stamp = "if show_chat_message_time st
                then the (strftime 64 ''[%H:%M:%S] '' now_tm) else []"
  obtain st' buf' where r: "real_append_output_window rnd now_tm astring conn_id st = Inr st'"
    and b: "message_buffer st' = Some buf'"
    and t: "buf_text buf' = buf_text buf @ [CHR 0x0A] @ ?stamp @ astring"
    using real_append_output_window_text [OF assms, of rnd now_tm astring conn_id] by blast
  have s: "?stamp = [] \<or> Some ?stamp = strftime 64 ''[%H:%M:%S] '' now_tm"
    by (simp add: strftime_pattern)
  have m: "buf_marks buf' = buf_marks buf" if "marks_ok buf"
    using real_append_output_window_buffer [OF assms that, of rnd now_tm astring conn_id] r b
    by auto
  have "take (length (buf_text buf)) (buf_text buf') = buf_text buf"
    and "\<forall>i. i < length (buf_text buf) \<longrightarrow> buf_text buf' ! i = buf_text buf ! i"
    using t by (simp_all add: nth_append)
  with r b t s m show ?thesis by blast
qed

theorem real_append_output_window_appends_witness:
  "\<exists>st' buf'. real_append_output_window Finite \<lparr>tm_sec = 5, tm_min = 59, tm_hour = 23\<rparr>
        ''hello'' 0 (sample_gui (Finite 75) True) = Inr st'
      \<and> message_buffer st' = Some buf'
      \<and> take 7 (buf_text buf') = ''Welcome''
      \<and> buf_text buf' ! 0 = CHR ''W''
      \<and> buf_marks buf' = [(1, 3)]"
  using
    real_append_output_window_appends [of "sample_gui (Finite 75) True"
      "\<lparr>buf_text = ''Welcome'', buf_marks = [(1, 3)]\<rparr>" Finite
      "\<lparr>tm_sec = 5, tm_min = 59, tm_hour = 23\<rparr>" "''hello''" 0]
  by (auto simp: sample_gui_def marks_ok_def)

section \<open>Properties of the specenum definition files\<close>

text \<open>
  C6. \<^verbatim>\<open>terrain_class\<close> has exactly the two values \<^verbatim>\<open>LAND\<close>, named "Land", and
  \<^verbatim>\<open>OCEAN\<close>, named "Oceanic", in this order; \<^verbatim>\<open>impr_flag_id\<close> has exactly thirteen
  values: the five flags and then \<^verbatim>\<open>USER_FLAG_1\<close> to \<^verbatim>\<open>USER_FLAG_8\<close>, in this order.
\<close>

theorem specenum_tables:
  "enum_values terrain_class =
     [Value ''LAND'' (Some (Marked ''Land'')), Value ''OCEAN'' (Some (Marked ''Oceanic''))]
   \<and> length (enum_values impr_flag_id) = 13
   \<and> map value_id (enum_values impr_flag_id) =
       [''VISIBLE_BY_OTHERS'', ''SAVE_SMALL_WONDER'', ''GOLD'', ''DISASTER_PROOF'',
        ''INDESTRUCTIBLE'', ''USER_FLAG_1'', ''USER_FLAG_2'', ''USER_FLAG_3'', ''USER_FLAG_4'',
        ''USER_FLAG_5'', ''USER_FLAG_6'', ''USER_FLAG_7'', ''USER_FLAG_8'']"
  by (simp add: terrain_class_def impr_flag_id_def)

lemma sorted_blocks:
  "filter style_identifiers_sorted specenum_blocks =
     [terrain_class, terrain_alteration, terrain_flag_id, mapgen_terrain_property]"
  by (simp add: specenum_blocks_def impr_flag_id_def terrain_class_def terrain_alteration_def
      terrain_flag_id_def mapgen_terrain_property_def)

lemma ascending_terrain_class: "strictly_ascending (named_identifiers terrain_class)"
  by (simp add: named_identifiers_def terrain_class_def)

lemma ascending_terrain_alteration: "strictly_ascending (named_identifiers terrain_alteration)"
  by (simp add: named_identifiers_def terrain_alteration_def)

lemma ascending_terrain_flag_id: "strictly_ascending (named_identifiers terrain_flag_id)"
  by (simp add: named_identifiers_def terrain_flag_id_def)

lemma ascending_mapgen_terrain_property:
  "strictly_ascending (named_identifiers mapgen_terrain_property)"
  by (simp add: named_identifiers_def mapgen_terrain_property_def)

lemma named_terrain_flags:
  "named_identifiers terrain_flag_id = map value_id (take 10 (enum_values terrain_flag_id))"
  "list_all (starts_with ''USER_'') (map value_id (drop 10 (enum_values terrain_flag_id)))"
  by (simp_all add: named_identifiers_def terrain_flag_id_def)

text \<open>
  C8. The blocks written with \<^verbatim>\<open>style identifiers sorted\<close> are \<^verbatim>\<open>terrain_class\<close>,
  \<^verbatim>\<open>terrain_alteration\<close>, \<^verbatim>\<open>terrain_flag_id\<close> and \<^verbatim>\<open>mapgen_terrain_property\<close>, and in
  each of them the identifiers of the named values are in strictly ascending ASCII
  order; the values of \<^verbatim>\<open>terrain_flag_id\<close> left out of this are its last ten, the
  \<^verbatim>\<open>USER_\<close> placeholders.
\<close>

theorem sorted_specenum_identifiers_ascending:
  "map enum_name (filter style_identifiers_sorted specenum_blocks) =
     [''terrain_class'', ''terrain_alteration'', ''terrain_flag_id'',
      ''mapgen_terrain_property'']
   \<and> list_all (\<lambda>e. strictly_ascending (named_identifiers e))
        (filter style_identifiers_sorted specenum_blocks)
   \<and> named_identifiers terrain_flag_id = map value_id (take 10 (enum_values terrain_flag_id))
   \<and> list_all (starts_with ''USER_'') (map value_id (drop 10 (enum_values terrain_flag_id)))"
  unfolding sorted_blocks
  by (simp add: ascending_terrain_class ascending_terrain_alteration ascending_terrain_flag_id
      ascending_mapgen_terrain_property named_terrain_flags)
    (simp add: terrain_class_def terrain_alteration_def terrain_flag_id_def
      mapgen_terrain_property_def)

section \<open>Properties of the build description\<close>

text \<open>
  C9. Whatever the other conditionals are, the Makefile.am builds exactly one libtool
  library: with \<^verbatim>\<open>AI_MOD_STATIC_TEX\<close> it is \<^verbatim>\<open>libtexai.la\<close>, listed in
  \<^verbatim>\<open>noinst_LTLIBRARIES\<close> and without link flags; without it, it is \<^verbatim>\<open>fc_ai_tex.la\<close>,
  listed in \<^verbatim>\<open>aimodule_LTLIBRARIES\<close>, with the link flags \<^verbatim>\<open>-module\<close>. The sources
  of either are the nine files of \<^verbatim>\<open>da_sources\<close>.
\<close>

theorem tex_library_target:
  "(if c ''AI_MOD_STATIC_TEX''
    then library_targets (am_vars c tex_makefile_am) =
           [(''noinst_LTLIBRARIES'', [''libtexai.la''])]
       \<and> am_value (am_vars c tex_makefile_am) (target_var ''libtexai.la'' ''_SOURCES'') =
           Some da_sources
       \<and> am_value (am_vars c tex_makefile_am) (target_var ''libtexai.la'' ''_LDFLAGS'') = None
    else library_targets (am_vars c tex_makefile_am) =
           [(''aimodule_LTLIBRARIES'', [''fc_ai_tex.la''])]
       \<and> am_value (am_vars c tex_makefile_am) (target_var ''fc_ai_tex.la'' ''_SOURCES'') =
           Some da_sources
       \<and> am_value (am_vars c tex_makefile_am) (target_var ''fc_ai_tex.la'' ''_LDFLAGS'') =
           Some [''-module''])
   \<and> length da_sources = 9 \<and> distinct da_sources"
proof -
  have n: "length da_sources = 9 \<and> distinct da_sources"
    by (simp add: da_sources_def)
  have no_ref: "concat (map (expand vars) da_sources) = da_sources" for vars
    by (simp add: da_sources_def expand_def var_ref_def)
  show ?thesis
  proof (cases "c ''AI_MOD_STATIC_TEX''")
    case True
    have v: "am_vars c tex_makefile_am =
        [(''noinst_LTLIBRARIES'', [''libtexai.la'']),
         (''AM_CPPFLAGS'',
          [''-I$(top_srcdir)/utility'', ''-I$(top_srcdir)/common'',
           ''-I$(top_srcdir)/common/aicore'', ''-I$(top_srcdir)/common/networking'',
           ''-I$(top_srcdir)/server/'', ''-I$(top_srcdir)/server/advisors'',
           ''-I$(top_srcdir)/ai/default'', ''-I$(top_srcdir)/dependencies/tinycthread'',
           ''-I$(top_srcdir)/gen_headers/enums'']),
         (''da_sources'', da_sources),
         (''libtexai_la_SOURCES'', [''$(da_sources)''])]"
      using True by (simp add: am_vars_def tex_makefile_am_def)
    have "library_targets (am_vars c tex_makefile_am) =
            [(''noinst_LTLIBRARIES'', [''libtexai.la''])]"
      unfolding v by (simp add: library_targets_def is_ltlibraries_def)
    moreover have "am_value (am_vars c tex_makefile_am) (target_var ''libtexai.la'' ''_SOURCES'')
            = Some da_sources"
      unfolding v
      by (simp add: am_value_def target_var_def canonical_char_def expand_def var_ref_def no_ref)
    moreover have "am_value (am_vars c tex_makefile_am) (target_var ''libtexai.la'' ''_LDFLAGS'')
            = None"
      unfolding v by (simp add: am_value_def target_var_def canonical_char_def)
    ultimately show ?thesis using True n by simp
  next
    case False
    have v: "am_vars c tex_makefile_am =
        [(''aimodule_LTLIBRARIES'', [''fc_ai_tex.la'']),
         (''AM_CPPFLAGS'',
          [''-I$(top_srcdir)/utility'', ''-I$(top_srcdir)/common'',
           ''-I$(top_srcdir)/common/aicore'', ''-I$(top_srcdir)/common/networking'',
           ''-I$(top_srcdir)/server/'', ''-I$(top_srcdir)/server/advisors'',
           ''-I$(top_srcdir)/ai/default'', ''-I$(top_srcdir)/dependencies/tinycthread'',
           ''-I$(top_srcdir)/gen_headers/enums'']),
         (''da_sources'', da_sources),
         (''fc_ai_tex_la_SOURCES'', [''$(da_sources)'']),
         (''fc_ai_tex_la_LDFLAGS'', [''-module''])]"
      using False by (simp add: am_vars_def tex_makefile_am_def)
    have "library_targets (am_vars c tex_makefile_am) =
            [(''aimodule_LTLIBRARIES'', [''fc_ai_tex.la''])]"
      unfolding v by (simp add: library_targets_def is_ltlibraries_def)
    moreover have "am_value (am_vars c tex_makefile_am) (target_var ''fc_ai_tex.la'' ''_SOURCES'')
            = Some da_sources"
      unfolding v
      by (simp add: am_value_def target_var_def canonical_char_def expand_def var_ref_def no_ref)
    moreover have "am_value (am_vars c tex_makefile_am) (target_var ''fc_ai_tex.la'' ''_LDFLAGS'')
            = Some [''-module'']"
      unfolding v
      by (simp add: am_value_def target_var_def canonical_char_def expand_def var_ref_def)
    ultimately show ?thesis using False n by simp
  qed
qed

section \<open>Properties of the Mongol nation ruleset\<close>

text \<open>
  C10. The leaders table has fourteen rows, and the entry of every row in the column
  \<^verbatim>\<open>sex\<close> is "Male" or "Female"; every row of the ruler titles table has an entry in
  the columns \<^verbatim>\<open>male_title\<close> and \<^verbatim>\<open>female_title\<close>, and each of these contains
  \<^verbatim>\<open>%s\<close>.
\<close>

theorem mongol_leaders_and_titles:
  "length (table_rows leaders) = 14
   \<and> every_entry sex_value ''sex'' leaders
   \<and> length (table_rows ruler_titles) = 2
   \<and> every_entry has_name_substitution ''male_title'' ruler_titles
   \<and> every_entry has_name_substitution ''female_title'' ruler_titles"
  by (simp add: leaders_def ruler_titles_def every_entry_def column_def sex_value_def
      has_name_substitution_def)

end
